theory Spec2Isabelle
  imports Main "HOL-Library.Word"
begin

unbundle bit_operations_syntax

section \<open>PAC script evaluator: \<^verbatim>\<open>src/request/providers/node/pac.ts\<close>\<close>

text \<open>
  A JavaScript string is modelled as \<^typ>\<open>string\<close>, one \<^typ>\<open>char\<close> per code unit.
  A thrown JavaScript value is an \<open>error\<close>; a function that can throw returns
  \<open>error + 'a\<close>, with \<open>Inl\<close> the thrown value.
\<close>

datatype error =
    LookupFailure string
  | TypeError string
  | SyntaxError string
  | ScriptError string

subsection \<open>String primitives of the language\<close>

text \<open>
  \<^verbatim>\<open>String.prototype.substr(start)\<close> with the length omitted: a negative start counts
  from the end and is clamped at the beginning of the string, a start past the end gives
  the empty string. Negative zero is zero.
\<close>

definition substr :: "string \<Rightarrow> int \<Rightarrow> string" where
  "substr s start =
     (let size = int (length s);
          from = (if start < 0 then max (size + start) 0 else min start size)
      in drop (nat from) s)"

subsection \<open>\<^verbatim>\<open>dnsDomainIs\<close>\<close>

text \<open>
  \<^verbatim>\<open>
  function dnsDomainIs(host: string, domain: string): boolean {
      domain = String(domain);
      return String(host).substr(domain.length * -1) === domain;
  }
  \<close>
\<close>

definition dnsDomainIs :: "string \<Rightarrow> string \<Rightarrow> bool" where
  "dnsDomainIs host domain = (substr host (int (length domain) * (- 1)) = domain)"

subsection \<open>The module-level regular expression \<^verbatim>\<open>dotRegExp\<close>\<close>

text \<open>
  \<^verbatim>\<open>const dotRegExp = /\./g;\<close>
  The expression carries the global flag, so it is a stateful object: \<^verbatim>\<open>test\<close> starts
  its search at the object's \<^verbatim>\<open>lastIndex\<close>, stores the end of the match there when it
  finds one, and stores 0 when it finds none (or when \<^verbatim>\<open>lastIndex\<close> is past the end of
  the string). The object is shared by every call of every evaluator of the process; its
  \<^verbatim>\<open>lastIndex\<close> is the one piece of mutable state of the predicate library and is
  passed through the functions that touch it.
\<close>

definition dotRegExp_test :: "string \<Rightarrow> nat \<Rightarrow> bool \<times> nat" where
  "dotRegExp_test s lastIndex =
     (if length s < lastIndex then (False, 0)
      else (case find (\<lambda>i. s ! i = CHR ''.'') [lastIndex ..< length s] of
              None \<Rightarrow> (False, 0)
            | Some i \<Rightarrow> (True, i + 1)))"

text \<open>
  \<^verbatim>\<open>String.prototype.match\<close> with a global expression resets \<^verbatim>\<open>lastIndex\<close> to 0,
  collects every match, and leaves \<^verbatim>\<open>lastIndex\<close> at 0; the result is \<^verbatim>\<open>null\<close>
  (here \<open>None\<close>) when there is no match.
\<close>

definition dotRegExp_match :: "string \<Rightarrow> nat \<Rightarrow> string list option \<times> nat" where
  "dotRegExp_match s lastIndex =
     (let found = map (\<lambda>c. [c]) (filter (\<lambda>c. c = CHR ''.'') s)
      in (if found = [] then None else Some found, 0))"

subsection \<open>Host name predicates\<close>

text \<open>
  \<^verbatim>\<open>
  function isPlainHostName(host: string): boolean {
      return !(dotRegExp.test(host));
  }
  \<close>
\<close>

definition isPlainHostName :: "string \<Rightarrow> nat \<Rightarrow> bool \<times> nat" where
  "isPlainHostName host lastIndex =
     (let (found, lastIndex') = dotRegExp_test host lastIndex in (\<not> found, lastIndex'))"

text \<open>
  \<^verbatim>\<open>
  function localHostOrDomainIs(host: string, hostdom: string): boolean {
      if (!isPlainHostName(host)) {
          return host === hostdom;
      }
      return host === String(hostdom).split('.')[0];
  }
  \<close>
  The first element of \<^verbatim>\<open>split('.')\<close> is the text before the first dot.
\<close>

definition localHostOrDomainIs :: "string \<Rightarrow> string \<Rightarrow> nat \<Rightarrow> bool \<times> nat" where
  "localHostOrDomainIs host hostdom lastIndex =
     (let (plain, lastIndex') = isPlainHostName host lastIndex
      in if \<not> plain then (host = hostdom, lastIndex')
         else (host = takeWhile (\<lambda>c. c \<noteq> CHR ''.'') hostdom, lastIndex'))"

text \<open>
  \<^verbatim>\<open>
  function dnsDomainLevels(host: string): number {
      const match = String(host).match(dotRegExp);
      if (!match) {
          return 0;
      }
      return match.length;
  }
  \<close>
\<close>

definition dnsDomainLevels :: "string \<Rightarrow> nat \<Rightarrow> nat \<times> nat" where
  "dnsDomainLevels host lastIndex =
     (let (match, lastIndex') = dotRegExp_match host lastIndex
      in (case match of None \<Rightarrow> (0, lastIndex') | Some ms \<Rightarrow> (length ms, lastIndex')))"

subsection \<open>Name resolution inside a fiber\<close>

text \<open>
  \<^verbatim>\<open>dns.lookup\<close> of Node.js is an external service: it answers a host name and an address
  family by calling back with \<^verbatim>\<open>(err, address)\<close>. The answer is a parameter of the model.
  An address that is \<^verbatim>\<open>undefined\<close> is \<open>None\<close>.
\<close>

datatype callback = Err error | Address "string option"

type_synonym lookupAsync = "string \<Rightarrow> nat \<Rightarrow> callback"

text \<open>
  What \<^verbatim>\<open>Fiber.yield()\<close> does once the callback has fired: \<^verbatim>\<open>fiber.throwInto(err)\<close>
  raises \<^verbatim>\<open>err\<close> at the point of the yield, \<^verbatim>\<open>fiber.run(address)\<close> makes the yield
  return \<^verbatim>\<open>address\<close>.
\<close>

definition fiber_yield :: "callback \<Rightarrow> error + string option" where
  "fiber_yield cb = (case cb of Err err \<Rightarrow> Inl err | Address address \<Rightarrow> Inr address)"

text \<open>
  \<^verbatim>\<open>
  function lookup(hostname: string, family: number = 4): void {
      const fiber = Fiber.current;
      lookupAsync(hostname, family, (err, address) => {
          if (err) {
              (fiber as any).throwInto(err);
          } else {
              fiber.run(address as any);
          }
      });
      (Fiber as any).yield();
  }
  \<close>
  The body ends with the call of \<^verbatim>\<open>yield\<close> as an expression statement and has no
  \<^verbatim>\<open>return\<close>: the value the fiber is resumed with is dropped and the function returns
  \<^verbatim>\<open>undefined\<close>, as its declared type \<^verbatim>\<open>void\<close> says.
\<close>

definition lookup :: "lookupAsync \<Rightarrow> string \<Rightarrow> error + string option" where
  "lookup lookupAsync hostname =
     (case fiber_yield (lookupAsync hostname 4) of
        Inl err \<Rightarrow> Inl err
      | Inr resumed \<Rightarrow> Inr None)"

text \<open>\<^verbatim>\<open>value || fallback\<close> on a string or \<^verbatim>\<open>undefined\<close>: both \<^verbatim>\<open>undefined\<close> and the
  empty string are falsy.\<close>

definition or_else :: "string option \<Rightarrow> string \<Rightarrow> string" where
  "or_else v fallback = (case v of None \<Rightarrow> fallback | Some s \<Rightarrow> if s = [] then fallback else s)"

text \<open>
  \<^verbatim>\<open>
  function isResolvable(host: string): boolean {
      try {
          lookup(host);
      }
      catch (_) {
          return false;
      }
      return true;
  }
  \<close>
\<close>

definition isResolvable :: "lookupAsync \<Rightarrow> string \<Rightarrow> bool" where
  "isResolvable lookupAsync host =
     (case lookup lookupAsync host of Inl _ \<Rightarrow> False | Inr _ \<Rightarrow> True)"

text \<open>
  \<^verbatim>\<open>
  function isInNet(host: string, pattern: string, mask: string): boolean {
      const ip = lookup(host) || '127.0.0.1';
      const netmask = new Netmask(pattern, mask);
      return Boolean(netmask.contains(ip));
  }
  \<close>
  \<^verbatim>\<open>Netmask\<close> comes from the package \<^verbatim>\<open>netmask\<close>; the function
  \<open>contains pattern mask ip\<close> stands for \<^verbatim>\<open>new Netmask(pattern, mask).contains(ip)\<close>,
  which throws on a malformed argument. There is no \<^verbatim>\<open>try\<close> around the lookup.
\<close>

type_synonym netmask = "string \<Rightarrow> string \<Rightarrow> string \<Rightarrow> error + bool"

definition isInNet :: "lookupAsync \<Rightarrow> netmask \<Rightarrow> string \<Rightarrow> string \<Rightarrow> string \<Rightarrow> error + bool" where
  "isInNet lookupAsync contains host pattern mask' =
     (case lookup lookupAsync host of
        Inl err \<Rightarrow> Inl err
      | Inr v \<Rightarrow> (let ip = or_else v ''127.0.0.1'' in contains pattern mask' ip))"

text \<open>
  \<^verbatim>\<open>
  function dnsResolve(host: string): string {
      return lookup(host) || '127.0.0.1';
  }
  \<close>
\<close>

definition dnsResolve :: "lookupAsync \<Rightarrow> string \<Rightarrow> error + string" where
  "dnsResolve lookupAsync host =
     (case lookup lookupAsync host of
        Inl err \<Rightarrow> Inl err
      | Inr v \<Rightarrow> Inr (or_else v ''127.0.0.1''))"

text \<open>\<^verbatim>\<open>function myIpAddress(): string { return address(); }\<close> with \<^verbatim>\<open>address\<close> of the
  package \<^verbatim>\<open>ip\<close>, a parameter here.\<close>

definition myIpAddress :: "string \<Rightarrow> string" where
  "myIpAddress address = address"

subsection \<open>Regular expressions built at run time\<close>

text \<open>
  \<^verbatim>\<open>shExpMatch\<close> builds a regular expression from a string with \<^verbatim>\<open>new RegExp\<close> and
  no flags. The model covers the part of the pattern language made of pattern characters,
  \<^verbatim>\<open>.\<close>, the assertions \<^verbatim>\<open>^\<close> and \<^verbatim>\<open>$\<close>, capturing groups, alternatives and the
  quantifiers \<^verbatim>\<open>*\<close>, \<^verbatim>\<open>+\<close> and \<^verbatim>\<open>?\<close> (greedy or lazy): everything the translation
  of \<^verbatim>\<open>shExpMatch\<close> itself emits. A pattern with a character class, a brace, a
  backslash or a group that starts with \<^verbatim>\<open>?\<close> is outside the model (\<open>Unsupported\<close>).
\<close>

datatype regex =
    Literal char
  | Dot
  | AssertStart
  | AssertEnd
  | Empty
  | Then regex regex
  | Or regex regex
  | ZeroOrMore regex
  | OneOrMore regex
  | ZeroOrOne regex

datatype parsed = Pattern regex | Invalid | Unsupported

text \<open>What stands just before the cursor: nothing that a quantifier could apply to, the
  opening parenthesis of a group, an atom, or an atom with its quantifier.\<close>

datatype before = NoAtom | GroupStart | Atom | Quantified

fun sequence :: "regex list \<Rightarrow> regex" where
  "sequence [] = Empty"
| "sequence (t # ts) = Then t (sequence ts)"

fun disjunction :: "regex list \<Rightarrow> regex" where
  "disjunction [] = Empty"
| "disjunction [a] = a"
| "disjunction (a # b # bs) = Or a (disjunction (b # bs))"

text \<open>The alternatives read so far and the terms of the current one are kept in reverse.\<close>

definition close_group :: "regex list \<Rightarrow> regex list \<Rightarrow> regex" where
  "close_group alts terms = disjunction (rev (sequence (rev terms) # alts))"

definition quantify :: "char \<Rightarrow> regex \<Rightarrow> regex" where
  "quantify q r =
     (if q = CHR ''*'' then ZeroOrMore r else if q = CHR ''+'' then OneOrMore r else ZeroOrOne r)"

fun parse ::
  "(regex list \<times> regex list) list \<Rightarrow> regex list \<Rightarrow> regex list \<Rightarrow> before \<Rightarrow> string \<Rightarrow> parsed"
where
  "parse stack alts terms b [] =
     (if stack = [] then Pattern (close_group alts terms) else Invalid)"
| "parse stack alts terms b (c # cs) =
     (if c = CHR ''^'' then parse stack alts (AssertStart # terms) NoAtom cs
      else if c = CHR ''$'' then parse stack alts (AssertEnd # terms) NoAtom cs
      else if c = CHR ''.'' then parse stack alts (Dot # terms) Atom cs
      else if c = CHR ''|'' then parse stack (sequence (rev terms) # alts) [] NoAtom cs
      else if c = CHR ''('' then parse ((alts, terms) # stack) [] [] GroupStart cs
      else if c = CHR '')'' then
        (case stack of
           [] \<Rightarrow> Invalid
         | (alts', terms') # stack' \<Rightarrow>
             parse stack' alts' (close_group alts terms # terms') Atom cs)
      else if c = CHR ''*'' \<or> c = CHR ''+'' \<or> c = CHR ''?'' then
        (case b of
           Atom \<Rightarrow>
             (case terms of
                [] \<Rightarrow> Invalid
              | t # ts \<Rightarrow> parse stack alts (quantify c t # ts) Quantified cs)
         | Quantified \<Rightarrow> (if c = CHR ''?'' then parse stack alts terms NoAtom cs else Invalid)
         | GroupStart \<Rightarrow> (if c = CHR ''?'' then Unsupported else Invalid)
         | NoAtom \<Rightarrow> Invalid)
      else if c = CHR ''['' \<or> c = CHR '']'' \<or> c = CHR ''{'' \<or> c = CHR ''}'' \<or> c = CHR 0x5C
        then Unsupported
      else parse stack alts (Literal c # terms) Atom cs)"

text \<open>\<^verbatim>\<open>new RegExp(source)\<close>: a \<^verbatim>\<open>SyntaxError\<close> on an invalid pattern; \<open>None\<close> when the
  pattern is outside the model.\<close>

definition RegExp :: "string \<Rightarrow> (error + regex) option" where
  "RegExp source =
     (case parse [] [] [] NoAtom source of
        Pattern r \<Rightarrow> Some (Inr r)
      | Invalid \<Rightarrow> Some (Inl (SyntaxError source))
      | Unsupported \<Rightarrow> None)"

text \<open>
  Matching. \<open>ends r s i\<close> lists the positions where a match of \<open>r\<close> that starts at
  position \<open>i\<close> of \<open>s\<close> can end. Without the multiline flag \<^verbatim>\<open>^\<close> holds at position 0
  only and \<^verbatim>\<open>$\<close> at the end of the input only; \<^verbatim>\<open>.\<close> matches any character but a line
  terminator. Whether some match exists does not depend on the order in which the
  matcher tries the alternatives, so greedy and lazy quantifiers are the same here. A
  repetition is closed under one more round \<open>length s + 1\<close> times, which reaches every
  position there is.
\<close>

definition is_line_terminator :: "char \<Rightarrow> bool" where
  "is_line_terminator c = (c = CHR 0x0A \<or> c = CHR 0x0D)"

fun rounds :: "nat \<Rightarrow> (nat \<Rightarrow> nat list) \<Rightarrow> nat list \<Rightarrow> nat list" where
  "rounds 0 f ps = ps"
| "rounds (Suc n) f ps = rounds n f (remdups (ps @ concat (map f ps)))"

fun ends :: "regex \<Rightarrow> string \<Rightarrow> nat \<Rightarrow> nat list" where
  "ends (Literal c) s i = (if i < length s \<and> s ! i = c then [Suc i] else [])"
| "ends Dot s i = (if i < length s \<and> \<not> is_line_terminator (s ! i) then [Suc i] else [])"
| "ends AssertStart s i = (if i = 0 then [i] else [])"
| "ends AssertEnd s i = (if i = length s then [i] else [])"
| "ends Empty s i = [i]"
| "ends (Then a b) s i = concat (map (\<lambda>j. ends b s j) (ends a s i))"
| "ends (Or a b) s i = ends a s i @ ends b s i"
| "ends (ZeroOrMore a) s i = rounds (Suc (length s)) (\<lambda>j. ends a s j) [i]"
| "ends (OneOrMore a) s i = rounds (Suc (length s)) (\<lambda>j. ends a s j) (ends a s i)"
| "ends (ZeroOrOne a) s i = i # ends a s i"

text \<open>\<^verbatim>\<open>RegExp.prototype.test\<close> of an expression without the global or sticky flag: the
  search starts at position 0 and tries every start position up to the end of the input.\<close>

definition regex_test :: "regex \<Rightarrow> string \<Rightarrow> bool" where
  "regex_test r s = list_ex (\<lambda>i. ends r s i \<noteq> []) [0 ..< Suc (length s)]"

subsection \<open>\<^verbatim>\<open>shExpMatch\<close>\<close>

text \<open>
  \<^verbatim>\<open>
  function shExpMatch(str: string, shexp: string): boolean {
      shexp = String(shexp)
          .replace(/\?/g, '.')
          .replace(/\*/g, '(:?.*)');
      return new RegExp(`^${shexp}$`).test(str);
  }
  \<close>
  \<^verbatim>\<open>replace\<close> with a global expression that matches one character replaces every
  occurrence of the character.
\<close>

definition replace_all :: "char \<Rightarrow> string \<Rightarrow> string \<Rightarrow> string" where
  "replace_all c by s = concat (map (\<lambda>x. if x = c then by else [x]) s)"

definition shExpMatch :: "string \<Rightarrow> string \<Rightarrow> (error + bool) option" where
  "shExpMatch str shexp =
     (let shexp' = replace_all (CHR ''*'') ''(:?.*)'' (replace_all (CHR ''?'') ''.'' shexp)
      in (case RegExp (''^'' @ shexp' @ ''$'') of
            None \<Rightarrow> None
          | Some (Inl err) \<Rightarrow> Some (Inl err)
          | Some (Inr r) \<Rightarrow> Some (Inr (regex_test r str))))"

text \<open>The syntax characters of the pattern language,
  \<^verbatim>\<open>^ $ \ . * + ? ( ) [ ] { } |\<close>; every other character is a pattern character and
  stands for itself.\<close>

definition pattern_character :: "char \<Rightarrow> bool" where
  "pattern_character c = (c \<notin> set ''^$.*+?()[]{}|'' \<and> c \<noteq> CHR 0x5C)"

subsection \<open>The clock\<close>

text \<open>
  Modelled from the spec: the class \<^verbatim>\<open>DateObject\<close> and the interface
  \<^verbatim>\<open>DateProperties\<close> of \<^verbatim>\<open>src/DateObject.ts\<close>, which \<^verbatim>\<open>pac.ts\<close> imports. The spec
  describes the clock source as
  \<^verbatim>\<open>now() -> {local: {hour, minute, second, dayOfWeek}, utc: {...}}\<close>. In the code the
  object returned by \<^verbatim>\<open>DateObject.now()\<close> carries the local fields itself
  (\<^verbatim>\<open>now.hours\<close>, \<^verbatim>\<open>now.dayOfWeek\<close>) and the UTC fields under \<^verbatim>\<open>now.utc\<close>; read as a
  \<^verbatim>\<open>DateProperties\<close> it gives the local fields. The day of the week counts from Sunday,
  which is 0, as \<^verbatim>\<open>dayMap\<close> does. Each predicate call reads the clock once; the reading
  is a parameter of the call.
\<close>

record DateProperties =
  dayOfWeek :: int
  hours :: int
  minutes :: int
  seconds :: int

record DateObject = DateProperties +
  utc :: DateProperties

definition local_time :: "DateObject \<Rightarrow> DateProperties" where
  "local_time now = DateProperties.truncate now"

subsection \<open>\<^verbatim>\<open>weekdayRange\<close>\<close>

text \<open>
  \<^verbatim>\<open>
  const dayMap: { [key: string]: number } = {
      SUN: 0, MON: 1, TUE: 2, WED: 3, THU: 4, FRI: 5, SAT: 6
  };
  \<close>
\<close>

definition dayMap :: "string \<rightharpoonup> int" where
  "dayMap =
     [''SUN'' \<mapsto> 0, ''MON'' \<mapsto> 1, ''TUE'' \<mapsto> 2, ''WED'' \<mapsto> 3, ''THU'' \<mapsto> 4,
      ''FRI'' \<mapsto> 5, ''SAT'' \<mapsto> 6]"

text \<open>\<^verbatim>\<open>dayMap[key] || -1\<close>: a missing key gives \<^verbatim>\<open>undefined\<close>, and both \<^verbatim>\<open>undefined\<close>
  and the number 0 are falsy.\<close>

definition day_or_minus_one :: "string \<Rightarrow> int" where
  "day_or_minus_one key =
     (case dayMap key of None \<Rightarrow> - 1 | Some n \<Rightarrow> if n = 0 then - 1 else n)"

text \<open>
  \<^verbatim>\<open>
  function weekdayInRange(today: number, start: number, end: number): boolean {
      return today >= start && today <= end;
  }
  \<close>
\<close>

definition weekdayInRange :: "int \<Rightarrow> int \<Rightarrow> int \<Rightarrow> bool" where
  "weekdayInRange today start end' = (today \<ge> start \<and> today \<le> end')"

text \<open>
  \<^verbatim>\<open>
  function weekdayRange(weekDay1: Weekday, weekDay2: string = '', gmt?: 'GMT'): boolean {
      let wd1 = dayMap[weekDay1] || -1;
      let wd2 = dayMap[weekDay2] || -1;
      let useUTC = weekDay2 === 'GMT' || gmt === 'GMT';
      let now = DateObject.now();
      let today: number = (useUTC ? now.utc : now).dayOfWeek;

      if (wd2 === -1) {
          return wd1 === today;
      }
      else {
          if (wd1 <= wd2) {
              return weekdayInRange(today, wd1, wd2);
          }
          else {
              return weekdayInRange(today, wd1, 6) || weekdayInRange(today, 0, wd2);
          }
      }
  }
  \<close>
  An argument left out is \<open>None\<close>; the default of \<^verbatim>\<open>weekDay2\<close> is the empty string.
\<close>

definition weekdayRange :: "DateObject \<Rightarrow> string \<Rightarrow> string option \<Rightarrow> string option \<Rightarrow> bool" where
  "weekdayRange now weekDay1 weekDay2_arg gmt =
     (let weekDay2 = (case weekDay2_arg of None \<Rightarrow> '''' | Some d \<Rightarrow> d);
          wd1 = day_or_minus_one weekDay1;
          wd2 = day_or_minus_one weekDay2;
          useUTC = (weekDay2 = ''GMT'' \<or> gmt = Some ''GMT'');
          today = dayOfWeek (if useUTC then utc now else local_time now)
      in if wd2 = - 1 then wd1 = today
         else if wd1 \<le> wd2 then weekdayInRange today wd1 wd2
         else weekdayInRange today wd1 6 \<or> weekdayInRange today 0 wd2)"

subsection \<open>\<^verbatim>\<open>dateRange\<close> and \<^verbatim>\<open>timeRange\<close>\<close>

text \<open>
  The arguments of both are numbers, with the string \<^verbatim>\<open>'GMT'\<close> allowed in the last
  place (and months, for \<^verbatim>\<open>dateRange\<close>). \<open>Num n\<close> is an integral number \<open>n\<close> and
  \<open>Str s\<close> a string that does not start with a number, for which \<^verbatim>\<open>parseInt(arg, 10)\<close>
  is \<^verbatim>\<open>NaN\<close>. A number of the language that may be \<^verbatim>\<open>NaN\<close> is an \<^typ>\<open>int option\<close>, with
  \<open>None\<close> for \<^verbatim>\<open>NaN\<close>: arithmetic with \<^verbatim>\<open>NaN\<close> gives \<^verbatim>\<open>NaN\<close> and every comparison
  with \<^verbatim>\<open>NaN\<close> is false.
\<close>

datatype arg = Num int | Str string

type_synonym number = "int option"

definition parseInt :: "arg \<Rightarrow> number" where
  "parseInt a = (case a of Num n \<Rightarrow> Some n | Str s \<Rightarrow> None)"

definition num_add :: "number \<Rightarrow> number \<Rightarrow> number" where
  "num_add a b = (case (a, b) of (Some x, Some y) \<Rightarrow> Some (x + y) | _ \<Rightarrow> None)"

definition num_mul :: "number \<Rightarrow> number \<Rightarrow> number" where
  "num_mul a b = (case (a, b) of (Some x, Some y) \<Rightarrow> Some (x * y) | _ \<Rightarrow> None)"

definition num_le :: "number \<Rightarrow> number \<Rightarrow> bool" where
  "num_le a b = (case (a, b) of (Some x, Some y) \<Rightarrow> x \<le> y | _ \<Rightarrow> False)"

definition num_lt :: "number \<Rightarrow> number \<Rightarrow> bool" where
  "num_lt a b = (case (a, b) of (Some x, Some y) \<Rightarrow> x < y | _ \<Rightarrow> False)"

definition num_eq :: "number \<Rightarrow> number \<Rightarrow> bool" where
  "num_eq a b = (case (a, b) of (Some x, Some y) \<Rightarrow> x = y | _ \<Rightarrow> False)"

text \<open>
  \<^verbatim>\<open>
  if (args[args.length - 1] === 'GMT') {
      args.pop();
      useUTC = true;
  }
  \<close>
  The prologue that \<^verbatim>\<open>dateRange\<close> and \<^verbatim>\<open>timeRange\<close> share; an empty argument list has
  no last element.
\<close>

definition pop_GMT :: "arg list \<Rightarrow> arg list \<times> bool" where
  "pop_GMT args =
     (if args = [] then (args, False)
      else if last args = Str ''GMT'' then (butlast args, True)
      else (args, False))"

text \<open>
  \<^verbatim>\<open>
  function dateRange(...args: any[]): boolean {
      let useUTC = false;
      if (args[args.length - 1] === 'GMT') {
          args.pop();
          useUTC = true;
      }
      return false;
  }
  \<close>
\<close>

definition dateRange :: "arg list \<Rightarrow> bool" where
  "dateRange args0 = (let (args, useUTC) = pop_GMT args0 in False)"

text \<open>
  \<^verbatim>\<open>
  function getSeconds(hours: number, minutes: number, seconds: number): number {
      return (hours * 3600) + (minutes * 60) + seconds;
  }
  \<close>
\<close>

definition getSeconds :: "number \<Rightarrow> number \<Rightarrow> number \<Rightarrow> number" where
  "getSeconds h m s = num_add (num_add (num_mul h (Some 3600)) (num_mul m (Some 60))) s"

text \<open>
  \<^verbatim>\<open>
  function timeRange(...args: any[]): boolean {
      let useUTC = false;
      if (args[args.length - 1] === 'GMT') {
          args.pop();
          useUTC = true;
      }

      let now: DateProperties = useUTC ? DateObject.now() : DateObject.now().utc;
      let integers = args.map(arg => parseInt(arg, 10));

      if (args.length === 1) {
          return now.hours === integers[0];
      }
      else if (args.length === 2) {
          return integers[0] <= now.hours && now.hours < integers[1];
      }
      else if (args.length === 4) {
          let seconds = getSeconds(now.hours, now.minutes, 0);

          return getSeconds(integers[0], integers[1], 0) <= seconds &&
              seconds <= getSeconds(integers[2], integers[3], 59);
      }
      else if (args.length === 6) {
          let seconds = getSeconds(now.hours, now.minutes, now.seconds);

          return getSeconds(integers[0], integers[1], integers[2]) <= seconds &&
              seconds <= getSeconds(integers[3], integers[4], integers[5]);
      }

      return false;
  }
  \<close>
  The first parameter is the reading of \<^verbatim>\<open>DateObject.now()\<close>.
\<close>

definition timeRange :: "DateObject \<Rightarrow> arg list \<Rightarrow> bool" where
  "timeRange clock args0 =
     (let (args, useUTC) = pop_GMT args0;
          now = (if useUTC then local_time clock else utc clock);
          integers = map parseInt args
      in if length args = 1 then num_eq (Some (hours now)) (integers ! 0)
         else if length args = 2 then
           num_le (integers ! 0) (Some (hours now)) \<and> num_lt (Some (hours now)) (integers ! 1)
         else if length args = 4 then
           (let seconds = getSeconds (Some (hours now)) (Some (minutes now)) (Some 0)
            in num_le (getSeconds (integers ! 0) (integers ! 1) (Some 0)) seconds \<and>
               num_le seconds (getSeconds (integers ! 2) (integers ! 3) (Some 59)))
         else if length args = 6 then
           (let seconds = getSeconds (Some (hours now)) (Some (minutes now)) (Some (seconds now))
            in num_le (getSeconds (integers ! 0) (integers ! 1) (integers ! 2)) seconds \<and>
               num_le seconds (getSeconds (integers ! 3) (integers ! 4) (integers ! 5)))
         else False)"

subsection \<open>Promises, the sandbox and \<^verbatim>\<open>pac\<close>\<close>

text \<open>
  The state a script can touch: \<^verbatim>\<open>lastIndex\<close> of the module's \<^verbatim>\<open>dotRegExp\<close> (through
  the predicates) and the global variables of its own context, of any type \<open>'g\<close>.
\<close>

record 'g heap =
  lastIndex :: nat
  globals :: 'g

text \<open>
  \<open>sandbox_runs\<close> counts the calls of \<^verbatim>\<open>runInNewContext\<close>. It is bookkeeping added by
  the model: no script and no predicate can reach it.
\<close>

record 'g world =
  heap :: "'g heap"
  sandbox_runs :: nat

text \<open>The decision function of a script, \<^verbatim>\<open>(url, host) => string\<close>: it can throw and it
  can change the heap.\<close>

type_synonym 'g decision = "string \<Rightarrow> string \<Rightarrow> 'g heap \<Rightarrow> (error + string) \<times> 'g heap"

text \<open>The completion value of \<^verbatim>\<open>`${content};FindProxyForURL`\<close>, as far as
  \<^verbatim>\<open>typeof\<close> tells values apart.\<close>

datatype 'g jsvalue = Function "'g decision" | NotAFunction

text \<open>
  \<^verbatim>\<open>vm.runInNewContext\<close> of Node.js is external: what running a piece of code gives (a
  thrown error or a completion value, and the heap afterwards) is the parameter \<open>vm\<close>.
  The twelve predicates are the only bindings of the new context.
\<close>

type_synonym 'g vm = "string \<Rightarrow> 'g heap \<Rightarrow> (error + 'g jsvalue) \<times> 'g heap"

definition runInNewContext :: "'g vm \<Rightarrow> string \<Rightarrow> 'g world \<Rightarrow> (error + 'g jsvalue) \<times> 'g world" where
  "runInNewContext vm code w =
     (let (completion, h) = vm code (heap w)
      in (completion, w\<lparr>heap := h, sandbox_runs := sandbox_runs w + 1\<rparr>))"

text \<open>
  A promise is described by the state it has once nothing more is going to happen: still
  \<open>Pending\<close>, or settled. \<^verbatim>\<open>new Promise(executor)\<close> settles with the first call the
  executor makes of \<^verbatim>\<open>resolve\<close> or \<^verbatim>\<open>reject\<close>; later calls are ignored; without any
  call the promise stays pending.
\<close>

datatype 'a promise = Pending | Fulfilled 'a | Rejected error

datatype 'a settle = Resolve 'a | Reject error

fun new_Promise :: "'a settle list \<Rightarrow> 'a promise" where
  "new_Promise [] = Pending"
| "new_Promise (Resolve v # later) = Fulfilled v"
| "new_Promise (Reject err # later) = Rejected err"

text \<open>\<^verbatim>\<open>p.then(onFulfilled)\<close> with a callback that returns a promise: the callback runs
  only if \<^verbatim>\<open>p\<close> is fulfilled and the result follows the promise it returns; a rejection
  of \<^verbatim>\<open>p\<close> is passed on; while \<^verbatim>\<open>p\<close> is pending so is the result.\<close>

fun then_promise ::
  "'a promise \<Rightarrow> ('a \<Rightarrow> 'w \<Rightarrow> 'b promise \<times> 'w) \<Rightarrow> 'w \<Rightarrow> 'b promise \<times> 'w"
where
  "then_promise Pending onFulfilled w = (Pending, w)"
| "then_promise (Rejected err) onFulfilled w = (Rejected err, w)"
| "then_promise (Fulfilled v) onFulfilled w = onFulfilled v w"

text \<open>
  \<^verbatim>\<open>
  const pacFind = new Promise<FindProxyForURL>((resolve, reject) => {
      Fiber(() => {
          try {
              const pacFind = runInNewContext(`${content};FindProxyForURL`, {
                  isPlainHostName, ..., timeRange
              }, fileName);

              if (typeof pacFind !== 'function') {
                  throw new TypeError('A PAC file must declare a function named "FindProxyForURL"');
              }
          }
          catch (error) {
              reject(error);
          }
      }).run();
  });
  \<close>
  The calls the executor makes of \<^verbatim>\<open>resolve\<close> and \<^verbatim>\<open>reject\<close>. The \<^verbatim>\<open>try\<close> block ends
  after the type check: \<^verbatim>\<open>resolve\<close> is a parameter of the executor that its body never
  calls.
\<close>

definition compile_executor ::
  "'g vm \<Rightarrow> string \<Rightarrow> 'g world \<Rightarrow> 'g decision settle list \<times> 'g world"
where
  \<open>compile_executor vm content w =
     (let (completion, w') = runInNewContext vm (content @ '';FindProxyForURL'') w
      in (case completion of
            Inl error \<Rightarrow> ([Reject error], w')
          | Inr pacFind \<Rightarrow>
              (case pacFind of
                 NotAFunction \<Rightarrow>
                   ([Reject (TypeError
                      ''A PAC file must declare a function named "FindProxyForURL"'')], w')
               | Function f \<Rightarrow> ([], w'))))\<close>

text \<open>
  \<^verbatim>\<open>
  return new Promise<string>((resolve, reject) => {
      Fiber(() => {
          try {
              resolve(pacFind(url, host));
          }
          catch (error) {
              reject(error);
          }
      }).run();
  });
  \<close>
\<close>

definition evaluate_executor ::
  "'g decision \<Rightarrow> string \<Rightarrow> string \<Rightarrow> 'g world \<Rightarrow> string settle list \<times> 'g world"
where
  "evaluate_executor pacFind url host w =
     (let (result, h) = pacFind url host (heap w)
      in (case result of
            Inl error \<Rightarrow> ([Reject error], w\<lparr>heap := h\<rparr>)
          | Inr directive \<Rightarrow> ([Resolve directive], w\<lparr>heap := h\<rparr>)))"

text \<open>
  \<^verbatim>\<open>
  export default function pac(content: string, fileName?: string): FindProxyForURL {
      const pacFind = new Promise<FindProxyForURL>(...);

      return function FindProxyForURL(url: string, host: string): Promise<string> {
          return pacFind.then(pacFind => {
              return new Promise<string>(...);
          });
      };
  }
  \<close>
  The function that \<^verbatim>\<open>pac\<close> returns is a closure over the promise \<^verbatim>\<open>pacFind\<close> and
  nothing else, so \<open>pac\<close> returns that promise and \<open>FindProxyForURL\<close> takes it as its
  first argument. \<^verbatim>\<open>fileName\<close> only labels stack traces.
\<close>

definition pac :: "'g vm \<Rightarrow> string \<Rightarrow> 'g world \<Rightarrow> 'g decision promise \<times> 'g world" where
  "pac vm content w =
     (let (calls, w') = compile_executor vm content w in (new_Promise calls, w'))"

definition FindProxyForURL ::
  "'g decision promise \<Rightarrow> string \<Rightarrow> string \<Rightarrow> 'g world \<Rightarrow> string promise \<times> 'g world"
where
  "FindProxyForURL pacFind url host w =
     then_promise pacFind
       (\<lambda>pacFind w. let (calls, w') = evaluate_executor pacFind url host w
                    in (new_Promise calls, w'))
       w"

text \<open>A series of calls of the returned function, one after the other.\<close>

fun evaluate_all ::
  "'g decision promise \<Rightarrow> (string \<times> string) list \<Rightarrow> 'g world \<Rightarrow> string promise list \<times> 'g world"
where
  "evaluate_all pacFind [] w = ([], w)"
| "evaluate_all pacFind ((url, host) # requests) w =
     (let (p, w') = FindProxyForURL pacFind url host w;
          (ps, w'') = evaluate_all pacFind requests w'
      in (p # ps, w''))"

subsection \<open>Concrete surroundings for the examples\<close>

text \<open>
  A model of \<^verbatim>\<open>new Netmask(pattern, mask).contains(ip)\<close> of the package \<^verbatim>\<open>netmask\<close> for
  IPv4 addresses in dotted decimal notation: the address is in the block when it agrees
  with the base address on the bits of the mask.
\<close>

definition digit_of :: "char \<Rightarrow> nat option" where
  "digit_of c =
     (let n = (of_char c :: nat) in if 48 \<le> n \<and> n \<le> 57 then Some (n - 48) else None)"

fun decimal :: "nat \<Rightarrow> string \<Rightarrow> nat option" where
  "decimal acc [] = Some acc"
| "decimal acc (c # cs) =
     (case digit_of c of None \<Rightarrow> None | Some d \<Rightarrow> decimal (10 * acc + d) cs)"

fun split_dots :: "string \<Rightarrow> string list" where
  "split_dots [] = [[]]"
| "split_dots (c # cs) =
     (if c = CHR ''.'' then [] # split_dots cs
      else (case split_dots cs of [] \<Rightarrow> [[c]] | part # parts \<Rightarrow> (c # part) # parts))"

definition octet :: "string \<Rightarrow> nat option" where
  "octet s =
     (if s = [] then None
      else (case decimal 0 s of None \<Rightarrow> None | Some n \<Rightarrow> if n \<le> 255 then Some n else None))"

definition ip2long :: "string \<Rightarrow> 32 word option" where
  "ip2long ip =
     (case map octet (split_dots ip) of
        [Some a, Some b, Some c, Some d] \<Rightarrow>
          Some (of_nat (((a * 256 + b) * 256 + c) * 256 + d))
      | _ \<Rightarrow> None)"

definition Netmask_contains :: netmask where
  "Netmask_contains pattern mask' ip =
     (case (ip2long pattern, ip2long mask', ip2long ip) of
        (Some netLong, Some maskLong, Some long) \<Rightarrow>
          Inr ((long AND maskLong) = (netLong AND maskLong))
      | _ \<Rightarrow> Inl (ScriptError ''Invalid net address''))"

text \<open>A resolver that knows one name, and one that answers an address literal with the
  literal itself.\<close>

definition example_lookupAsync :: lookupAsync where
  "example_lookupAsync hostname family =
     (if hostname = ''www.example.com'' then Address (Some ''93.184.216.34'')
      else Err (LookupFailure hostname))"

definition literal_lookupAsync :: lookupAsync where
  "literal_lookupAsync hostname family = Address (Some hostname)"

text \<open>A resolver whose callback reports success without an address.\<close>

definition silent_lookupAsync :: lookupAsync where
  "silent_lookupAsync hostname family = Address None"

text \<open>A reading of the clock: Sunday, 10:30:00 local time, 18:30:00 UTC.\<close>

definition sunday_morning :: DateObject where
  "sunday_morning =
     \<lparr>dayOfWeek = 0, hours = 10, minutes = 30, seconds = 0,
      utc = \<lparr>dayOfWeek = 0, hours = 18, minutes = 30, seconds = 0\<rparr>\<rparr>"

text \<open>
  The script of the end-to-end example and the decision function it declares, written
  with the predicate of this theory:
  \<^verbatim>\<open>
  function FindProxyForURL(url,host){
      if (isPlainHostName(host)) return "DIRECT";
      return "PROXY proxy.example.com:8080; DIRECT";
  }
  \<close>
\<close>

definition example_script :: string where
  \<open>example_script =
     ''function FindProxyForURL(url,host){ if (isPlainHostName(host)) return "DIRECT"; '' @
     ''return "PROXY proxy.example.com:8080; DIRECT"; }''\<close>

definition example_decision :: "unit decision" where
  "example_decision url host h =
     (let (plain, lastIndex') = isPlainHostName host (lastIndex h)
      in (Inr (if plain then ''DIRECT'' else ''PROXY proxy.example.com:8080; DIRECT''),
          h\<lparr>lastIndex := lastIndex'\<rparr>))"

text \<open>A sandbox that knows this one script; any other text is refused, as a script that
  does not parse would be.\<close>

definition example_vm :: "unit vm" where
  "example_vm code h =
     (if code = example_script @ '';FindProxyForURL'' then (Inr (Function example_decision), h)
      else (Inl (ScriptError code), h))"

definition fresh_world :: "unit world" where
  "fresh_world = \<lparr>heap = \<lparr>lastIndex = 0, globals = ()\<rparr>, sandbox_runs = 0\<rparr>"

section \<open>Properties\<close>

subsection \<open>\<^verbatim>\<open>dnsDomainIs\<close>\<close>

lemma substr_negative:
  "0 < n \<Longrightarrow> substr s (- int n) = drop (length s - n) s"
  by (auto simp: substr_def Let_def max_def intro: arg_cong [where f = "\<lambda>k. drop k s"])

text \<open>With a domain that is not empty the function is the suffix test.\<close>

lemma dnsDomainIs_nonempty_domain:
  "domain \<noteq> [] \<Longrightarrow> dnsDomainIs host domain = (\<exists>pre. host = pre @ domain)"
proof -
  assume ne: "domain \<noteq> []"
  then have "dnsDomainIs host domain = (drop (length host - length domain) host = domain)"
    by (simp add: dnsDomainIs_def substr_negative)
  also have "\<dots> = (\<exists>pre. host = pre @ domain)"
  proof
    assume "drop (length host - length domain) host = domain"
    then have "host = take (length host - length domain) host @ domain"
      by (metis append_take_drop_id)
    then show "\<exists>pre. host = pre @ domain" ..
  next
    assume "\<exists>pre. host = pre @ domain"
    then show "drop (length host - length domain) host = domain" by auto
  qed
  finally show ?thesis .
qed

text \<open>With the empty domain \<^verbatim>\<open>substr(-0)\<close> is the whole host, so the comparison holds
  for the empty host only.\<close>

lemma dnsDomainIs_empty_domain: "dnsDomainIs host [] = (host = [])"
  by (simp add: dnsDomainIs_def substr_def)

text \<open>
  Claim C7: for all strings host and domain, \<^verbatim>\<open>dnsDomainIs(host, domain)\<close> is true iff host
  ends with domain, the empty domain included. The code at
  \<^verbatim>\<open>dnsDomainIs("www.example.com", "")\<close>: every string ends with the empty string, and the
  function returns false. The two examples of the spec come out as the spec says.
\<close>

theorem dnsDomainIs_empty_domain_is_false:
  "dnsDomainIs ''www.example.com'' '''' = False \<and>
   dnsDomainIs ''www.example.com'' ''.com'' = True \<and>
   dnsDomainIs ''www.example.com'' ''.org'' = False"
  by (simp add: dnsDomainIs_def substr_def)

subsection \<open>\<^verbatim>\<open>isPlainHostName\<close>\<close>

lemma find_dot_None:
  "find (\<lambda>i. s ! i = CHR ''.'') [0 ..< length s] = None \<longleftrightarrow> CHR ''.'' \<notin> set s"
  by (auto simp: find_None_iff in_set_conv_nth)

text \<open>A call that finds \<^verbatim>\<open>lastIndex\<close> at 0 answers as the spec says.\<close>

lemma isPlainHostName_from_zero:
  "fst (isPlainHostName host 0) = (CHR ''.'' \<notin> set host)"
proof (cases "find (\<lambda>i. host ! i = CHR ''.'') [0 ..< length host]")
  case None
  then show ?thesis
    using find_dot_None [of host] by (simp add: isPlainHostName_def dotRegExp_test_def)
next
  case (Some i)
  then show ?thesis
    using find_dot_None [of host] by (simp add: isPlainHostName_def dotRegExp_test_def)
qed

text \<open>A call on a host without a dot leaves \<^verbatim>\<open>lastIndex\<close> at 0, one on a host with a dot
  leaves it past the dot it found.\<close>

lemma isPlainHostName_plain_resets:
  "fst (isPlainHostName host k) \<Longrightarrow> snd (isPlainHostName host k) = 0"
  by (auto simp: isPlainHostName_def dotRegExp_test_def split: option.splits if_splits)

lemma isPlainHostName_dotted_advances:
  "\<not> fst (isPlainHostName host k) \<Longrightarrow> 0 < snd (isPlainHostName host k)"
  by (auto simp: isPlainHostName_def dotRegExp_test_def split: option.splits if_splits)

text \<open>
  Claim C4: for every host and after any sequence of earlier predicate calls,
  \<^verbatim>\<open>isPlainHostName(h)\<close> is true iff \<open>h\<close> has no dot. The code after one earlier call:
  \<^verbatim>\<open>isPlainHostName("www.example.com")\<close> answers false and leaves \<^verbatim>\<open>lastIndex\<close> at 4;
  the next call, \<^verbatim>\<open>isPlainHostName("a.io")\<close>, searches from position 4, finds no dot and
  answers true for a host that has one.
\<close>

theorem isPlainHostName_after_dotted_host:
  "isPlainHostName ''www.example.com'' 0 = (False, 4) \<and>
   isPlainHostName ''a.io'' 4 = (True, 0) \<and>
   CHR ''.'' \<in> set ''a.io''"
  by (simp add: isPlainHostName_def dotRegExp_test_def upt_rec)

subsection \<open>\<^verbatim>\<open>lookup\<close>, \<^verbatim>\<open>dnsResolve\<close>, \<^verbatim>\<open>isInNet\<close>, \<^verbatim>\<open>isResolvable\<close>\<close>

text \<open>\<^verbatim>\<open>lookup\<close> never returns the address: on success its value is \<^verbatim>\<open>undefined\<close>.\<close>

lemma lookup_success:
  "lookupAsync host 4 = Address a \<Longrightarrow> lookup lookupAsync host = Inr None"
  by (simp add: lookup_def fiber_yield_def)

lemma lookup_failure:
  "lookupAsync host 4 = Err err \<Longrightarrow> lookup lookupAsync host = Inl err"
  by (simp add: lookup_def fiber_yield_def)

lemma dnsResolve_success:
  "lookupAsync host 4 = Address a \<Longrightarrow> dnsResolve lookupAsync host = Inr ''127.0.0.1''"
  by (simp add: dnsResolve_def lookup_success or_else_def)

lemma dnsResolve_failure:
  "lookupAsync host 4 = Err err \<Longrightarrow> dnsResolve lookupAsync host = Inl err"
  by (simp add: dnsResolve_def lookup_failure)

text \<open>
  Claim C2: when the resolution of \<open>h\<close> succeeds with a non-empty address \<open>a\<close>,
  \<^verbatim>\<open>dnsResolve(h)\<close> returns \<open>a\<close>; when it fails or gives nothing, \<^verbatim>\<open>dnsResolve(h)\<close>
  returns \<^verbatim>\<open>"127.0.0.1"\<close> and does not raise. The code with a resolver that answers
  \<^verbatim>\<open>www.example.com\<close> with 93.184.216.34 and fails on every other name: the address is
  lost and the failure is raised.
\<close>

theorem dnsResolve_loses_address:
  "example_lookupAsync ''www.example.com'' 4 = Address (Some ''93.184.216.34'') \<and>
   dnsResolve example_lookupAsync ''www.example.com'' = Inr ''127.0.0.1'' \<and>
   example_lookupAsync ''nowhere.invalid'' 4 = Err (LookupFailure ''nowhere.invalid'') \<and>
   dnsResolve example_lookupAsync ''nowhere.invalid'' = Inl (LookupFailure ''nowhere.invalid'')"
  by (simp add: dnsResolve_def lookup_def fiber_yield_def or_else_def example_lookupAsync_def)

lemma isInNet_success:
  "lookupAsync host 4 = Address a \<Longrightarrow>
   isInNet lookupAsync contains host pattern mask' = contains pattern mask' ''127.0.0.1''"
  by (simp add: isInNet_def lookup_success or_else_def)

lemma isInNet_failure:
  "lookupAsync host 4 = Err err \<Longrightarrow> isInNet lookupAsync contains host pattern mask' = Inl err"
  by (simp add: isInNet_def lookup_failure)

lemma ip2long_examples:
  "ip2long ''10.0.0.0'' = Some 0x0A000000"
  "ip2long ''10.0.0.5'' = Some 0x0A000005"
  "ip2long ''10.0.1.5'' = Some 0x0A000105"
  "ip2long ''127.0.0.1'' = Some 0x7F000001"
  "ip2long ''255.255.255.0'' = Some 0xFFFFFF00"
  by (simp_all add: ip2long_def octet_def digit_of_def)

text \<open>
  Claim C3: \<^verbatim>\<open>isInNet(host, pattern, mask)\<close> resolves the host and is true iff the
  resolved address lies in the block; when 10.0.0.5 resolves to itself,
  \<^verbatim>\<open>isInNet("10.0.0.5", "10.0.0.0", "255.255.255.0")\<close> is true. The code with a resolver
  that answers every address literal with itself: the block contains 10.0.0.5, and the
  function tests 127.0.0.1 instead and answers false.
\<close>

theorem isInNet_tests_loopback:
  "literal_lookupAsync ''10.0.0.5'' 4 = Address (Some ''10.0.0.5'') \<and>
   Netmask_contains ''10.0.0.0'' ''255.255.255.0'' ''10.0.0.5'' = Inr True \<and>
   isInNet literal_lookupAsync Netmask_contains ''10.0.0.5'' ''10.0.0.0'' ''255.255.255.0''
     = Inr False"
  by (simp add: isInNet_def lookup_def fiber_yield_def or_else_def literal_lookupAsync_def
      Netmask_contains_def ip2long_examples)

text \<open>
  Claim C10: \<^verbatim>\<open>isResolvable(h)\<close> is true whenever the callback of the lookup reports
  success, also with an empty or undefined address; the value is dropped and only success
  or failure decides.
\<close>

theorem isResolvable_iff_callback_succeeds:
  "isResolvable lookupAsync h = (\<exists>address. lookupAsync h 4 = Address address)"
  by (cases "lookupAsync h 4") (simp_all add: isResolvable_def lookup_def fiber_yield_def)

theorem isResolvable_without_address:
  "silent_lookupAsync ''intranet'' 4 = Address None \<and>
   isResolvable silent_lookupAsync ''intranet''"
  using isResolvable_iff_callback_succeeds [of silent_lookupAsync "''intranet''"]
  by (simp add: silent_lookupAsync_def)

subsection \<open>\<^verbatim>\<open>timeRange\<close>\<close>

text \<open>Without \<^verbatim>\<open>'GMT'\<close> the hour range is compared with the UTC hour, with \<^verbatim>\<open>'GMT'\<close>
  with the local hour: the two branches of the conditional that picks \<^verbatim>\<open>now\<close> are
  the other way round than in \<^verbatim>\<open>weekdayRange\<close>.\<close>

lemma timeRange_hours:
  "timeRange clock [Num a, Num b] = (a \<le> hours (utc clock) \<and> hours (utc clock) < b)"
  by (simp add: timeRange_def Let_def pop_GMT_def parseInt_def num_le_def num_lt_def)

lemma timeRange_hours_GMT:
  "timeRange clock [Num a, Num b, Str ''GMT''] =
     (a \<le> hours (local_time clock) \<and> hours (local_time clock) < b)"
  by (simp add: timeRange_def Let_def pop_GMT_def parseInt_def num_le_def num_lt_def)

lemma timeRange_single_hour:
  "timeRange clock [Num a] = (hours (utc clock) = a)"
  by (simp add: timeRange_def Let_def pop_GMT_def parseInt_def num_eq_def)

text \<open>Seconds since midnight; the four-argument form leaves the seconds of the clock
  out and closes the range at second 59 of its last minute.\<close>

lemma getSeconds_numbers:
  "getSeconds (Some h) (Some m) (Some s) = Some (h * 3600 + m * 60 + s)"
  by (simp add: getSeconds_def num_add_def num_mul_def)

lemma timeRange_minutes:
  "timeRange clock [Num h1, Num m1, Num h2, Num m2] =
     (h1 * 3600 + m1 * 60 \<le> hours (utc clock) * 3600 + minutes (utc clock) * 60 \<and>
      hours (utc clock) * 3600 + minutes (utc clock) * 60 \<le> h2 * 3600 + m2 * 60 + 59)"
  by (simp add: timeRange_def Let_def pop_GMT_def parseInt_def num_le_def getSeconds_numbers)

lemma timeRange_seconds:
  "timeRange clock [Num h1, Num m1, Num s1, Num h2, Num m2, Num s2] =
     (h1 * 3600 + m1 * 60 + s1
        \<le> hours (utc clock) * 3600 + minutes (utc clock) * 60 + seconds (utc clock) \<and>
      hours (utc clock) * 3600 + minutes (utc clock) * 60 + seconds (utc clock)
        \<le> h2 * 3600 + m2 * 60 + s2)"
  by (simp add: timeRange_def Let_def pop_GMT_def parseInt_def num_le_def getSeconds_numbers)

lemma timeRange_other_counts:
  "length (fst (pop_GMT args)) \<notin> {1, 2, 4, 6} \<Longrightarrow> timeRange clock args = False"
  by (simp add: timeRange_def split_beta Let_def)

text \<open>
  Claim C5: \<^verbatim>\<open>timeRange(9,17)\<close> without \<^verbatim>\<open>'GMT'\<close> is true iff the local hour \<open>h\<close>
  has \<open>9 \<le> h < 17\<close>; without \<^verbatim>\<open>'GMT'\<close> the comparison is with local time and with
  \<^verbatim>\<open>'GMT'\<close> with UTC. The code at a clock that reads 10:30 local time and 18:30 UTC:
  \<^verbatim>\<open>timeRange(9,17)\<close> is false although the local hour is 10, and
  \<^verbatim>\<open>timeRange(9,17,'GMT')\<close> is true although the UTC hour is 18.
\<close>

theorem timeRange_compares_wrong_zone:
  "hours (local_time sunday_morning) = 10 \<and> hours (utc sunday_morning) = 18 \<and>
   timeRange sunday_morning [Num 9, Num 17] = False \<and>
   timeRange sunday_morning [Num 9, Num 17, Str ''GMT''] = True"
  by (simp add: timeRange_def Let_def pop_GMT_def parseInt_def num_le_def num_lt_def
      sunday_morning_def local_time_def DateProperties.truncate_def)

subsection \<open>\<^verbatim>\<open>weekdayRange\<close>\<close>

lemma day_or_minus_one_values:
  "day_or_minus_one ''SUN'' = - 1"
  "day_or_minus_one ''MON'' = 1"
  "day_or_minus_one ''TUE'' = 2"
  "day_or_minus_one ''WED'' = 3"
  "day_or_minus_one ''THU'' = 4"
  "day_or_minus_one ''FRI'' = 5"
  "day_or_minus_one ''SAT'' = 6"
  "day_or_minus_one '''' = - 1"
  "day_or_minus_one ''GMT'' = - 1"
  by (simp_all add: day_or_minus_one_def dayMap_def)

text \<open>With one day that is not Sunday the function compares the local day with it.\<close>

lemma weekdayRange_single_day:
  "dayMap d = Some n \<Longrightarrow> n \<noteq> 0 \<Longrightarrow>
   weekdayRange now d None None = (dayOfWeek (local_time now) = n)"
  by (auto simp: weekdayRange_def day_or_minus_one_def dayMap_def)

text \<open>Sunday is day 0, which \<^verbatim>\<open>|| -1\<close> turns into -1: alone it matches no day.\<close>

lemma weekdayRange_SUN_alone:
  "0 \<le> dayOfWeek (local_time now) \<Longrightarrow> weekdayRange now ''SUN'' None None = False"
  by (auto simp: weekdayRange_def day_or_minus_one_values)

text \<open>The range that wraps around the end of the week.\<close>

lemma weekdayRange_FRI_MON:
  "0 \<le> dayOfWeek (local_time now) \<Longrightarrow> dayOfWeek (local_time now) \<le> 6 \<Longrightarrow>
   weekdayRange now ''FRI'' (Some ''MON'') None = (dayOfWeek (local_time now) \<in> {5, 6, 0, 1})"
  by (auto simp: weekdayRange_def day_or_minus_one_values weekdayInRange_def)

text \<open>
  Claim C6: for every day \<open>d1\<close> of SUN, ..., SAT, \<^verbatim>\<open>weekdayRange(d1)\<close> without
  \<^verbatim>\<open>'GMT'\<close> is true iff the local day of the week is \<open>d1\<close>, and with two days iff today
  is in the inclusive range, wrapping around the week. The code on a Sunday:
  \<^verbatim>\<open>weekdayRange("SUN")\<close> is false, and \<^verbatim>\<open>weekdayRange("MON", "SUN")\<close>, the range
  Monday to Sunday, is false as well.
\<close>

theorem weekdayRange_misses_sunday:
  "dayOfWeek (local_time sunday_morning) = 0 \<and> dayMap ''SUN'' = Some 0 \<and>
   weekdayRange sunday_morning ''SUN'' None None = False \<and>
   weekdayRange sunday_morning ''MON'' (Some ''SUN'') None = False"
  by (simp add: weekdayRange_def day_or_minus_one_values dayMap_def
      sunday_morning_def local_time_def DateProperties.truncate_def)

subsection \<open>\<^verbatim>\<open>pac\<close>: the compilation promise\<close>

text \<open>\<^verbatim>\<open>pac\<close> enters the sandbox once.\<close>

lemma pac_sandbox_runs:
  "sandbox_runs (snd (pac vm content w)) = sandbox_runs w + 1"
  by (simp add: pac_def compile_executor_def runInNewContext_def split_beta
      split: sum.splits jsvalue.splits)

text \<open>The promise of \<^verbatim>\<open>pac\<close> is rejected when the sandbox throws or the script gives no
  function, and pending otherwise: it is never fulfilled.\<close>

lemma pac_sandbox_throws:
  "fst (vm (content @ '';FindProxyForURL'') (heap w)) = Inl err \<Longrightarrow>
   fst (pac vm content w) = Rejected err"
  by (simp add: pac_def compile_executor_def runInNewContext_def split_beta)

lemma pac_not_a_function:
  \<open>fst (vm (content @ '';FindProxyForURL'') (heap w)) = Inr NotAFunction \<Longrightarrow>
   fst (pac vm content w) =
     Rejected (TypeError ''A PAC file must declare a function named "FindProxyForURL"'')\<close>
  by (simp add: pac_def compile_executor_def runInNewContext_def split_beta)

lemma pac_function_pending:
  "fst (vm (content @ '';FindProxyForURL'') (heap w)) = Inr (Function f) \<Longrightarrow>
   fst (pac vm content w) = Pending"
  by (simp add: pac_def compile_executor_def runInNewContext_def split_beta)

lemma pac_never_fulfilled: "fst (pac vm content w) \<noteq> Fulfilled f"
  by (simp add: pac_def compile_executor_def runInNewContext_def split_beta
      split: sum.splits jsvalue.splits)

text \<open>A call of the returned function on a promise that is not fulfilled changes nothing
  and gives back the state of the promise.\<close>

lemma FindProxyForURL_Pending: "FindProxyForURL Pending url host w = (Pending, w)"
  by (simp add: FindProxyForURL_def)

lemma FindProxyForURL_Rejected: "FindProxyForURL (Rejected err) url host w = (Rejected err, w)"
  by (simp add: FindProxyForURL_def)

text \<open>On a fulfilled promise the call would run the decision function and settle with
  what it returns or throws.\<close>

lemma FindProxyForURL_Fulfilled:
  "FindProxyForURL (Fulfilled f) url host w =
     (case fst (f url host (heap w)) of Inl err \<Rightarrow> Rejected err | Inr d \<Rightarrow> Fulfilled d,
      w\<lparr>heap := snd (f url host (heap w))\<rparr>)"
  by (simp add: FindProxyForURL_def evaluate_executor_def split_beta split: sum.splits)

text \<open>No call of the returned function enters the sandbox.\<close>

lemma FindProxyForURL_sandbox_runs:
  "sandbox_runs (snd (FindProxyForURL pacFind url host w)) = sandbox_runs w"
  by (cases pacFind) (simp_all add: FindProxyForURL_def evaluate_executor_def split_beta
      split: sum.splits)

lemma evaluate_all_sandbox_runs:
  "sandbox_runs (snd (evaluate_all pacFind requests w)) = sandbox_runs w"
proof (induction requests arbitrary: w)
  case Nil
  show ?case by simp
next
  case (Cons request requests)
  obtain url host where request: "request = (url, host)"
    by (cases request)
  have "sandbox_runs (snd (evaluate_all pacFind (request # requests) w)) =
      sandbox_runs (snd (evaluate_all pacFind requests (snd (FindProxyForURL pacFind url host w))))"
    by (simp add: request split_beta)
  also have "\<dots> = sandbox_runs (snd (FindProxyForURL pacFind url host w))"
    by (rule Cons.IH)
  also have "\<dots> = sandbox_runs w"
    by (rule FindProxyForURL_sandbox_runs)
  finally show ?case .
qed

lemma evaluate_all_Rejected:
  "evaluate_all (Rejected err) requests w = (replicate (length requests) (Rejected err), w)"
  by (induction requests arbitrary: w) (auto simp: FindProxyForURL_Rejected)

lemma evaluate_all_Pending:
  "evaluate_all Pending requests w = (replicate (length requests) Pending, w)"
  by (induction requests arbitrary: w) (auto simp: FindProxyForURL_Pending)

text \<open>
  Claim C8: the script body runs in the sandbox at most once. Every call of the returned
  function uses the promise that \<^verbatim>\<open>pac\<close> made and none enters the sandbox; a failed
  compilation stays failed, and every later call is rejected with the error of the
  compilation. Here \<^verbatim>\<open>pac\<close> is called in the world \<open>w\<close> and the calls of the returned
  function start in any later world \<open>w1\<close>.
\<close>

theorem pac_compiles_once:
  assumes "pac vm content w = (pacFind, w0)"
    and "evaluate_all pacFind requests w1 = (results, w2)"
  shows \<open>sandbox_runs w0 = sandbox_runs w + 1 \<and>
    sandbox_runs w2 = sandbox_runs w1 \<and>
    (\<forall>err. fst (vm (content @ '';FindProxyForURL'') (heap w)) = Inl err \<longrightarrow>
       pacFind = Rejected err) \<and>
    (fst (vm (content @ '';FindProxyForURL'') (heap w)) = Inr NotAFunction \<longrightarrow>
       (\<exists>message. pacFind = Rejected (TypeError message))) \<and>
    (\<forall>err. pacFind = Rejected err \<longrightarrow>
       results = replicate (length requests) (Rejected err) \<and> w2 = w1)\<close>
proof (intro conjI allI impI)
  show "sandbox_runs w0 = sandbox_runs w + 1"
    using pac_sandbox_runs [of vm content w] assms(1) by simp
  show "sandbox_runs w2 = sandbox_runs w1"
    using evaluate_all_sandbox_runs [of pacFind requests w1] assms(2) by simp
next
  fix err
  assume "fst (vm (content @ '';FindProxyForURL'') (heap w)) = Inl err"
  then show "pacFind = Rejected err"
    using pac_sandbox_throws [of vm content w err] assms(1) by simp
next
  assume "fst (vm (content @ '';FindProxyForURL'') (heap w)) = Inr NotAFunction"
  then show "\<exists>message. pacFind = Rejected (TypeError message)"
    using pac_not_a_function [of vm content w] assms(1) by simp
next
  fix err
  assume "pacFind = Rejected err"
  then show "results = replicate (length requests) (Rejected err)" and "w2 = w1"
    using assms(2) by (simp_all add: evaluate_all_Rejected)
qed

lemma example_vm_refuses:
  "pac example_vm ''return 1'' fresh_world =
     (Rejected (ScriptError ''return 1;FindProxyForURL''), fresh_world\<lparr>sandbox_runs := 1\<rparr>)"
  by (simp add: pac_def compile_executor_def runInNewContext_def example_vm_def
      example_script_def fresh_world_def)

theorem pac_compiles_once_witness:
  "pac example_vm ''return 1'' fresh_world =
     (Rejected (ScriptError ''return 1;FindProxyForURL''), fresh_world\<lparr>sandbox_runs := 1\<rparr>) \<and>
   evaluate_all (Rejected (ScriptError ''return 1;FindProxyForURL''))
       [(''http://intranet/'', ''intranet''), (''http://www.example.com/'', ''www.example.com'')]
       (fresh_world\<lparr>sandbox_runs := 1\<rparr>) =
     ([Rejected (ScriptError ''return 1;FindProxyForURL''),
       Rejected (ScriptError ''return 1;FindProxyForURL'')],
      fresh_world\<lparr>sandbox_runs := 1\<rparr>) \<and>
   sandbox_runs (fresh_world\<lparr>sandbox_runs := 1\<rparr>) = sandbox_runs fresh_world + 1"
proof -
  let ?p = "Rejected (ScriptError ''return 1;FindProxyForURL'') :: unit decision promise"
  let ?rs = "[(''http://intranet/'', ''intranet''), (''http://www.example.com/'', ''www.example.com'')]"
  let ?w = "fresh_world\<lparr>sandbox_runs := 1\<rparr>"
  have run: "evaluate_all ?p ?rs ?w = (replicate (length ?rs) (Rejected (ScriptError ''return 1;FindProxyForURL'')), ?w)"
    by (rule evaluate_all_Rejected)
  from pac_compiles_once [OF example_vm_refuses run] example_vm_refuses run
  show ?thesis by simp
qed

text \<open>
  Claim C1: for the script of the end-to-end example, the promise that the returned
  function gives settles with \<^verbatim>\<open>"DIRECT"\<close> for the host \<^verbatim>\<open>intranet\<close> and with
  \<^verbatim>\<open>"PROXY proxy.example.com:8080; DIRECT"\<close> for \<^verbatim>\<open>www.example.com\<close>, and every call
  on a compiled script settles exactly once. The code: the sandbox gives the function of
  the script, \<^verbatim>\<open>pac\<close> leaves its promise pending, and the promise of each call stays
  pending. Called directly, the function of the script answers as the claim says.
\<close>

theorem example_script_never_settles:
  "fst (example_vm (example_script @ '';FindProxyForURL'') (heap fresh_world))
     = Inr (Function example_decision) \<and>
   fst (pac example_vm example_script fresh_world) = Pending \<and>
   fst (FindProxyForURL (fst (pac example_vm example_script fresh_world))
          ''http://intranet/'' ''intranet'' (snd (pac example_vm example_script fresh_world)))
     = Pending \<and>
   fst (FindProxyForURL (fst (pac example_vm example_script fresh_world))
          ''http://www.example.com/'' ''www.example.com''
          (snd (pac example_vm example_script fresh_world)))
     = Pending \<and>
   fst (example_decision ''http://intranet/'' ''intranet'' (heap fresh_world)) = Inr ''DIRECT''"
proof -
  have vm: "fst (example_vm (example_script @ '';FindProxyForURL'') (heap fresh_world))
      = Inr (Function example_decision)"
    by (simp add: example_vm_def)
  have pending: "fst (pac example_vm example_script fresh_world) = Pending"
    using vm by (rule pac_function_pending [where vm = example_vm and content = example_script])
  have direct: "fst (example_decision ''http://intranet/'' ''intranet'' (heap fresh_world))
      = Inr ''DIRECT''"
    by (simp add: example_decision_def isPlainHostName_def dotRegExp_test_def fresh_world_def
        upt_rec)
  show ?thesis
    by (simp add: vm pending direct FindProxyForURL_Pending)
qed

text \<open>The same for every script that compiles and every request.\<close>

lemma compiled_script_never_settles:
  "fst (vm (content @ '';FindProxyForURL'') (heap w)) = Inr (Function f) \<Longrightarrow>
   fst (FindProxyForURL (fst (pac vm content w)) url host w1) = Pending"
  by (simp add: pac_function_pending FindProxyForURL_Pending)

subsection \<open>\<^verbatim>\<open>shExpMatch\<close>\<close>

text \<open>A run of pattern characters is read as that many literals.\<close>

lemma parse_pattern_characters:
  "list_all pattern_character p \<Longrightarrow>
   parse stack alts terms b (p @ rest) =
   parse stack alts (rev (map Literal p) @ terms) (if p = [] then b else Atom) rest"
proof (induction p arbitrary: terms b)
  case Nil
  show ?case by simp
next
  case (Cons c p)
  from Cons.prems have c: "pattern_character c" and p: "list_all pattern_character p"
    by simp_all
  from c have "parse stack alts terms b ((c # p) @ rest) =
      parse stack alts (Literal c # terms) Atom (p @ rest)"
    by (simp add: pattern_character_def)
  also have "\<dots> = parse stack alts (rev (map Literal p) @ Literal c # terms)
      (if p = [] then Atom else Atom) rest"
    by (rule Cons.IH [OF p])
  finally show ?case by simp
qed

lemma RegExp_anchored_literal:
  assumes "list_all pattern_character p"
  shows "RegExp (CHR ''^'' # p @ ''$'') =
    Some (Inr (Then AssertStart (sequence (map Literal p @ [AssertEnd]))))"
proof -
  have "parse [] [] [] NoAtom (CHR ''^'' # p @ ''$'') =
      parse [] [] [AssertStart] NoAtom (p @ ''$'')"
    by simp
  also have "\<dots> = parse [] [] (rev (map Literal p) @ [AssertStart])
      (if p = [] then NoAtom else Atom) ''$''"
    by (rule parse_pattern_characters [OF assms])
  also have "\<dots> = Pattern (Then AssertStart (sequence (map Literal p @ [AssertEnd])))"
    by (simp add: close_group_def)
  finally show ?thesis by (simp add: RegExp_def)
qed

lemma take_drop_Cons:
  "take (Suc n) (drop i s) = c # p \<longleftrightarrow>
     i < length s \<and> s ! i = c \<and> take n (drop (Suc i) s) = p"
proof (cases "i < length s")
  case True
  then have "drop i s = s ! i # drop (Suc i) s"
    by (simp add: Cons_nth_drop_Suc)
  with True show ?thesis by simp
next
  case False
  then show ?thesis by simp
qed

text \<open>A sequence that starts with literals matches at \<open>i\<close> iff the input continues
  with these characters there.\<close>

lemma ends_literals:
  "ends (sequence (map Literal p @ ts)) s i =
   (if take (length p) (drop i s) = p then ends (sequence ts) s (i + length p) else [])"
proof (induction p arbitrary: i)
  case Nil
  show ?case by simp
next
  case (Cons c p)
  show ?case
    by (simp add: Cons.IH take_drop_Cons del: take_Suc_Cons drop_Suc_Cons)
qed

lemma ends_anchored_literal:
  "ends (Then AssertStart (sequence (map Literal p @ [AssertEnd]))) s i =
   (if i = 0 \<and> s = p then [length s] else [])"
proof (cases "i = 0")
  case True
  have "take (length p) s = p \<and> length p = length s \<longleftrightarrow> s = p"
    by auto
  with True show ?thesis by (auto simp: ends_literals)
next
  case False
  then show ?thesis by simp
qed

lemma regex_test_anchored_literal:
  "regex_test (Then AssertStart (sequence (map Literal p @ [AssertEnd]))) s = (s = p)"
  unfolding regex_test_def ends_anchored_literal
  by (auto simp: list_ex_iff)

lemma replace_all_absent: "c \<notin> set s \<Longrightarrow> replace_all c by s = s"
  by (induction s) (auto simp: replace_all_def)

lemma shExpMatch_pattern_characters:
  assumes "list_all pattern_character p"
  shows "shExpMatch s p = Some (Inr (s = p))"
proof -
  from assms have q: "CHR ''?'' \<notin> set p" and st: "CHR ''*'' \<notin> set p"
    by (auto simp: list_all_iff pattern_character_def)
  have "replace_all (CHR ''*'') ''(:?.*)'' (replace_all (CHR ''?'') ''.'' p) = p"
    by (simp add: replace_all_absent q st)
  then show ?thesis
    by (simp add: shExpMatch_def RegExp_anchored_literal [OF assms] regex_test_anchored_literal)
qed

text \<open>
  Claim C9: for every string \<open>s\<close> and every pattern \<open>p\<close> without \<^verbatim>\<open>?\<close>, without \<^verbatim>\<open>*\<close>
  and without any of \<^verbatim>\<open>. ( ) [ ] { } + ^ $ |\<close> and the backslash, \<^verbatim>\<open>shExpMatch(s, p)\<close> is true iff
  \<open>s\<close> equals \<open>p\<close>: the translated pattern is anchored at both ends. The expression is
  built without an error and inside the modelled part of the pattern language.
\<close>

theorem shExpMatch_literal_pattern:
  assumes "set p \<inter> set ''?*.()[]{}+^$|'' = {}" and "CHR 0x5C \<notin> set p"
  shows "shExpMatch s p = Some (Inr (s = p))"
proof -
  have "pattern_character c" if "c \<in> set p" for c
  proof -
    from that assms(1) have "c \<notin> set ''?*.()[]{}+^$|''" by blast
    moreover from that assms(2) have "c \<noteq> CHR 0x5C" by blast
    ultimately show ?thesis by (simp add: pattern_character_def)
  qed
  then have "list_all pattern_character p"
    by (simp add: list_all_iff)
  then show ?thesis by (rule shExpMatch_pattern_characters)
qed

theorem shExpMatch_literal_pattern_witness:
  "set ''proxy-1_example'' \<inter> set ''?*.()[]{}+^$|'' = {} \<and>
   CHR 0x5C \<notin> set ''proxy-1_example'' \<and>
   shExpMatch ''proxy-1_example'' ''proxy-1_example'' = Some (Inr True) \<and>
   shExpMatch ''proxy-2_example'' ''proxy-1_example'' = Some (Inr False)"
proof -
  have a: "set ''proxy-1_example'' \<inter> set ''?*.()[]{}+^$|'' = {}" by simp
  have b: "CHR 0x5C \<notin> set ''proxy-1_example''" by simp
  from shExpMatch_literal_pattern [OF a b, of "''proxy-1_example''"]
    shExpMatch_literal_pattern [OF a b, of "''proxy-2_example''"] a b
  show ?thesis by simp
qed

text \<open>The two examples of the spec, by running the model.\<close>

lemma shExpMatch_spec_examples:
  "shExpMatch ''www.example.com'' ''*.example.com'' = Some (Inr True)"
  "shExpMatch ''www.evil.com'' ''*.example.com'' = Some (Inr False)"
  by code_simp+

end
